theory Spec2Isabelle
  imports Main
begin

section \<open>The signaling relay of src/server.js\<close>

text \<open>
  The relay keeps three pieces of state: the table of connected sockets
  (\<open>io.sockets.connected\<close>, owned by the transport library), the object
  \<open>brokenSockets\<close>, and the room table of the module \<open>./rooms\<close>. Each connection
  handler additionally closes over one variable, \<open>currentRoom\<close>. Handlers return the new
  state together with the list of messages they send, each paired with its recipient;
  a handler that raises an error returns the error instead.
  Calls of the debug logger have no effect on state or messages and are left out.
\<close>

type_synonym sid = string
type_synonym room = string

subsection \<open>Configuration (lines 14-22)\<close>

text \<open>
  The module \<open>./config\<close> is read through \<open>config.max\<close>; its value is a parameter of the
  model: \<open>None\<close> when the field is undefined, \<open>Some n\<close> for the number \<open>n\<close>.
  \<open>CONFIG.max\<close> is \<open>config.max || 50\<close>: the falsy values undefined and 0 give 50.
\<close>

definition CONFIG_max :: "nat option \<Rightarrow> nat" where
  "CONFIG_max config_max =
     (case config_max of None \<Rightarrow> 50 | Some n \<Rightarrow> (if n = 0 then 50 else n))"

subsection \<open>Room table (module ./rooms)\<close>

type_synonym room_table = "room \<rightharpoonup> sid list"

text \<open>
  Modelled from the spec: \<open>allSocketsForRoom\<close> of the module \<open>./rooms\<close>, which is not
  among the sources. Spec 4.2, \<open>membersOf\<close>: the ordered sequence of identifiers of the
  room, the empty sequence if the room is unknown. The result is a value: later updates
  of the table do not change it.
\<close>

definition allSocketsForRoom :: "room_table \<Rightarrow> room \<Rightarrow> sid list" where
  "allSocketsForRoom tbl r = (case tbl r of None \<Rightarrow> [] | Some ms \<Rightarrow> ms)"

text \<open>
  Modelled from the spec: \<open>addSocketToRoom\<close> of the module \<open>./rooms\<close>, which is not
  among the sources. Spec 4.2, \<open>add\<close>: appends to the room's membership and creates the
  room entry if absent; that the connection is in no other room is left to the caller.
\<close>

definition addSocketToRoom :: "sid \<Rightarrow> room \<Rightarrow> room_table \<Rightarrow> room_table" where
  "addSocketToRoom i r tbl = tbl(r \<mapsto> allSocketsForRoom tbl r @ [i])"

text \<open>
  Modelled from the spec: \<open>removeSocketFromRoom\<close> of the module \<open>./rooms\<close>, which is not
  among the sources. Spec 4.2, \<open>remove\<close>: removes the identifier from the room; no-op if
  it is not present or if the room name is empty or absent; a room that becomes empty
  is pruned. The room name is \<open>None\<close> for JavaScript's undefined.
\<close>

definition removeSocketFromRoom :: "sid \<Rightarrow> room option \<Rightarrow> room_table \<Rightarrow> room_table" where
  "removeSocketFromRoom i rn tbl =
     (case rn of
        None \<Rightarrow> tbl
      | Some r \<Rightarrow>
          if r = [] then tbl
          else (case tbl r of
                  None \<Rightarrow> tbl
                | Some ms \<Rightarrow>
                    if i \<notin> set ms then tbl
                    else (let ms' = removeAll i ms
                          in if ms' = [] then tbl(r := None) else tbl(r \<mapsto> ms'))))"

subsection \<open>Messages and state\<close>

text \<open>
  The payload of a \<open>signal\<close> event: the fields \<open>from\<close> and \<open>to\<close> (\<open>None\<close> when the field
  is missing) and the remaining fields as written by the client.
\<close>

record signal_data =
  sd_from :: "string option"
  sd_to :: "string option"
  sd_rest :: "(string \<times> string) list"

datatype message =
    Joined room "sid list"
  | ErrorMsg string nat bool
  | SignalMsg signal_data
  | Remove sid

type_synonym outbox = "(sid \<times> message) list"

datatype js_error = TypeError string

text \<open>
  \<open>connected\<close> lists the own keys of \<open>io.sockets.connected\<close> in insertion order,
  \<open>brokenSockets\<close> holds the own keys of the object of that name (every stored value
  is true), and \<open>currentRoom\<close> maps each connection whose handler closure exists to the
  value of its variable \<open>currentRoom\<close> (\<open>None\<close> for undefined).
\<close>

record relay =
  connected :: "sid list"
  brokenSockets :: "sid set"
  rooms :: room_table
  currentRoom :: "sid \<rightharpoonup> room option"

definition initial :: relay where
  "initial = \<lparr>connected = [], brokenSockets = {}, rooms = Map.empty, currentRoom = Map.empty\<rparr>"

subsection \<open>Connection registry (lines 36-64)\<close>

text \<open>
  \<open>brokenSockets\<close> and \<open>io.sockets.connected\<close> are plain objects: reading a key that is
  not an own property finds the properties inherited from \<open>Object.prototype\<close>, whose
  values (functions, and the prototype itself for \<open>__proto__\<close>) are truthy and are not
  sockets.
\<close>

definition Object_prototype :: "string list" where
  "Object_prototype =
     [''constructor'', ''__defineGetter__'', ''__defineSetter__'', ''hasOwnProperty'',
      ''__lookupGetter__'', ''__lookupSetter__'', ''isPrototypeOf'', ''propertyIsEnumerable'',
      ''toString'', ''valueOf'', ''__proto__'', ''toLocaleString'']"

datatype property = Socket sid | Inherited string

definition activeSockets :: "sid option \<Rightarrow> relay \<Rightarrow> sid list" where
  "activeSockets excl s =
     filter (\<lambda>k. Some k \<noteq> excl \<and> \<not> (k \<in> brokenSockets s \<or> k \<in> set Object_prototype))
       (connected s)"

text \<open>\<open>io.emit\<close> sends the message to every socket of the connected table.\<close>

definition io_emit :: "message \<Rightarrow> relay \<Rightarrow> outbox" where
  "io_emit m s = map (\<lambda>k. (k, m)) (connected s)"

definition brokenSocket :: "sid \<Rightarrow> relay \<Rightarrow> relay \<times> outbox" where
  "brokenSocket i s =
     (s\<lparr>brokenSockets := insert i (brokenSockets s)\<rparr>, io_emit (Remove i) s)"

definition socketByID :: "relay \<Rightarrow> sid \<Rightarrow> property option" where
  "socketByID s k =
     (if k \<in> set (connected s) then Some (Socket k)
      else if k \<in> set Object_prototype then Some (Inherited k)
      else None)"

text \<open>
  Calling \<open>emit\<close> on a value that is not a socket raises TypeError: the inherited values
  have no property of that name.
\<close>

definition emitByID :: "sid \<Rightarrow> message \<Rightarrow> relay \<Rightarrow> js_error + outbox" where
  "emitByID k m s =
     (case socketByID s k of
        None \<Rightarrow> Inr []
      | Some (Socket t) \<Rightarrow> Inr [(t, m)]
      | Some (Inherited p) \<Rightarrow> Inl (TypeError ''socket.emit is not a function''))"

text \<open>The loop of lines 60-64: what was emitted, and the error that ended it, if any.\<close>

fun broadcastByID :: "sid list \<Rightarrow> message \<Rightarrow> relay \<Rightarrow> outbox \<times> js_error option" where
  "broadcastByID [] m s = ([], None)"
| "broadcastByID (k # ks) m s =
     (case emitByID k m s of
        Inl e \<Rightarrow> ([], Some e)
      | Inr out \<Rightarrow> (case broadcastByID ks m s of (out', e) \<Rightarrow> (out @ out', e)))"

subsection \<open>Event handlers (lines 66-121)\<close>

datatype trigger = Disconnect | Disconnecting | Error

text \<open>
  The listener registered for each of the three triggers (lines 73-79); \<open>cur\<close> is the
  value of the closure variable \<open>currentRoom\<close>.
\<close>

definition on_teardown :: "trigger \<Rightarrow> sid \<Rightarrow> room option \<Rightarrow> relay \<Rightarrow> relay \<times> outbox" where
  "on_teardown t i cur s =
     (let (s1, out) = brokenSocket i s
      in (s1\<lparr>rooms := removeSocketFromRoom i cur (rooms s1)\<rparr>, out))"

text \<open>
  \<open>socket.emit\<close> of the transport (\<open>io.sockets.connected\<close> exists in socket.io up to
  version 2): an event whose name is reserved is not sent to the client but emitted
  locally, which runs the listeners registered on the socket for that name; the
  listeners of this program are those of the three triggers. Any other event is sent
  to the client of the socket.
\<close>

definition reserved_events :: "string list" where
  "reserved_events =
     [''error'', ''connect'', ''disconnect'', ''disconnecting'', ''newListener'', ''removeListener'']"

definition trigger_of :: "string \<Rightarrow> trigger option" where
  "trigger_of name =
     (if name = ''disconnect'' then Some Disconnect
      else if name = ''disconnecting'' then Some Disconnecting
      else if name = ''error'' then Some Error
      else None)"

definition socket_emit :: "sid \<Rightarrow> room option \<Rightarrow> string \<Rightarrow> message \<Rightarrow> relay \<Rightarrow> relay \<times> outbox" where
  "socket_emit i cur name m s =
     (if name \<in> set reserved_events
      then (case trigger_of name of Some t \<Rightarrow> on_teardown t i cur s | None \<Rightarrow> (s, []))
      else (s, [(i, m)]))"

text \<open>
  Line 84 compares with \<open>config.max\<close>, not with \<open>CONFIG.max\<close>; a comparison of a
  number with undefined is false.
\<close>

definition full :: "nat option \<Rightarrow> sid list \<Rightarrow> bool" where
  "full config_max peers =
     (case config_max of None \<Rightarrow> False | Some n \<Rightarrow> n \<le> length peers)"

definition on_join :: "nat option \<Rightarrow> sid \<Rightarrow> room option \<Rightarrow> room \<Rightarrow> relay \<Rightarrow> relay \<times> outbox" where
  "on_join config_max i cur r s =
     (let peers = allSocketsForRoom (rooms s) r
      in if full config_max peers
         then socket_emit i cur ''error'' (ErrorMsg (''Room '' @ r @ '' is full'') 1 True) s
         else socket_emit i (Some r) ''joined'' (Joined r peers)
                (s\<lparr>rooms := addSocketToRoom i r (removeSocketFromRoom i cur (rooms s)),
                   currentRoom := (currentRoom s)(i \<mapsto> Some r)\<rparr>))"

text \<open>
  The table that line 93 appends to: the room's membership immediately before the
  joining connection is added.
\<close>

definition members_before_add :: "sid \<Rightarrow> room option \<Rightarrow> room \<Rightarrow> relay \<Rightarrow> sid list" where
  "members_before_add i cur r s =
     allSocketsForRoom (removeSocketFromRoom i cur (rooms s)) r"

text \<open>A value of \<open>data.to\<close> is truthy when it is a non-empty string.\<close>

definition truthy :: "string option \<Rightarrow> bool" where
  "truthy v = (case v of None \<Rightarrow> False | Some x \<Rightarrow> x \<noteq> [])"

text \<open>
  The \<open>signal\<close> handler (lines 103-119). The event \<open>signal\<close> is not reserved. When the
  lookup of \<open>data.to\<close> finds an inherited property, \<open>toSocket.emit\<close> is not a function
  and line 111 raises TypeError; nothing has been changed or sent by then.
\<close>

definition on_signal :: "sid \<Rightarrow> signal_data \<Rightarrow> relay \<Rightarrow> js_error + relay \<times> outbox" where
  "on_signal i d s =
     (case sd_to d of
        None \<Rightarrow> Inr (s, [])
      | Some t \<Rightarrow>
          if truthy (Some t)
          then (case socketByID s t of
                  Some (Socket toSocket) \<Rightarrow> Inr (s, [(toSocket, SignalMsg d)])
                | Some (Inherited p) \<Rightarrow> Inl (TypeError ''toSocket.emit is not a function'')
                | None \<Rightarrow> Inr (s, []))
          else Inr (s, []))"

subsection \<open>Events\<close>

text \<open>
  \<open>Connection i\<close> is the transport's \<open>connection\<close> event for a new socket with
  identifier \<open>i\<close>: the socket is in the connected table and the handler closure is
  created with \<open>currentRoom\<close> undefined. Identifiers are random tokens assigned by the
  transport, never reused and never the name of an inherited property, so the event
  has no effect for an identifier seen before or for such a name.
  \<open>Closed i\<close> is the transport taking the socket out of the connected table; no code
  of the relay runs then. \<open>Ev i e\<close> is a client event on socket \<open>i\<close>; without a closure
  for \<open>i\<close> no handler is registered and nothing happens.
\<close>

datatype client_event = Join room | Signal signal_data | Teardown trigger

datatype event = Connection sid | Closed sid | Ev sid client_event

definition on_connection :: "sid \<Rightarrow> relay \<Rightarrow> relay" where
  "on_connection i s =
     (if currentRoom s i \<noteq> None \<or> i \<in> set (connected s) \<or> i \<in> set Object_prototype then s
      else s\<lparr>connected := connected s @ [i], currentRoom := (currentRoom s)(i \<mapsto> None)\<rparr>)"

definition step :: "nat option \<Rightarrow> event \<Rightarrow> relay \<Rightarrow> js_error + relay \<times> outbox" where
  "step config_max e s =
     (case e of
        Connection i \<Rightarrow> Inr (on_connection i s, [])
      | Closed i \<Rightarrow> Inr (s\<lparr>connected := removeAll i (connected s)\<rparr>, [])
      | Ev i ce \<Rightarrow>
          (case currentRoom s i of
             None \<Rightarrow> Inr (s, [])
           | Some cur \<Rightarrow>
               (case ce of
                  Join r \<Rightarrow> Inr (on_join config_max i cur r s)
                | Signal d \<Rightarrow> on_signal i d s
                | Teardown t \<Rightarrow> Inr (on_teardown t i cur s))))"

text \<open>The state a step leads to and the messages it sends, when it raises no error.\<close>

definition state_of :: "js_error + relay \<times> outbox \<Rightarrow> relay option" where
  "state_of res = (case res of Inl e \<Rightarrow> None | Inr (s, out) \<Rightarrow> Some s)"

definition sent :: "js_error + relay \<times> outbox \<Rightarrow> outbox option" where
  "sent res = (case res of Inl e \<Rightarrow> None | Inr (s, out) \<Rightarrow> Some out)"

text \<open>
  A run handles the events in order. No handler catches an error, so an error raised
  by a handler ends the process: the run stops in the state in which the error was
  raised and the remaining events are not handled.
\<close>

fun run :: "nat option \<Rightarrow> event list \<Rightarrow> relay \<Rightarrow> relay \<times> js_error option" where
  "run config_max [] s = (s, None)"
| "run config_max (e # es) s =
     (case step config_max e s of
        Inl err \<Rightarrow> (s, Some err)
      | Inr (s', out) \<Rightarrow> run config_max es s')"

definition relay_after :: "nat option \<Rightarrow> event list \<Rightarrow> relay" where
  "relay_after config_max evs = fst (run config_max evs initial)"

subsection \<open>Properties of states\<close>

text \<open>I1: no identifier is in the membership of two rooms.\<close>

definition room_exclusive :: "relay \<Rightarrow> bool" where
  "room_exclusive s =
     (\<forall>i r1 r2. i \<in> set (allSocketsForRoom (rooms s) r1) \<and>
                i \<in> set (allSocketsForRoom (rooms s) r2) \<longrightarrow> r1 = r2)"

text \<open>
  The invariant of the rooms with a non-empty name: a member of such a room remembers
  it as its current room, and its membership lists no identifier twice.
\<close>

definition named_consistent :: "relay \<Rightarrow> bool" where
  "named_consistent s =
     ((\<forall>i r. r \<noteq> [] \<and> i \<in> set (allSocketsForRoom (rooms s) r) \<longrightarrow>
              currentRoom s i = Some (Some r)) \<and>
      (\<forall>r. r \<noteq> [] \<longrightarrow> distinct (allSocketsForRoom (rooms s) r)))"

subsection \<open>TURN credentials endpoint (lines 140-165)\<close>

text \<open>
  The environment variables the endpoint reads, \<open>None\<close> for a variable that is not set.
\<close>

record environment =
  TURN_WHITELIST :: "string option"
  TURN_USERNAME :: "string option"
  TURN_PASSWORD :: "string option"
  TURN_SECRET :: "string option"
  STUN :: "string option"
  TURN :: "string option"
  COTURN :: "string option"

text \<open>\<open>String.prototype.split\<close> with a one-character separator.\<close>

fun split_on :: "char \<Rightarrow> string \<Rightarrow> string list" where
  "split_on c [] = [[]]"
| "split_on c (x # xs) =
     (if x = c then [] # split_on c xs
      else (case split_on c xs of [] \<Rightarrow> [[x]] | w # ws \<Rightarrow> (x # w) # ws))"

definition turnWhitelist :: "environment \<Rightarrow> string list" where
  "turnWhitelist env =
     (case TURN_WHITELIST env of
        None \<Rightarrow> []
      | Some w \<Rightarrow> if truthy (Some w) then split_on CHR '','' w else [])"

text \<open>
  The first capture group of the regular expression of line 146 on the Referer header:
  an optional greedy prefix ending in \<open>://\<close> that stays on the first line, then the
  characters up to the first slash. The expression matches every string.
\<close>

definition line_terminator :: "char \<Rightarrow> bool" where
  "line_terminator c = (c = CHR 0x0A \<or> c = CHR 0x0D)"

fun after_scheme :: "string \<Rightarrow> string option" where
  "after_scheme [] = None"
| "after_scheme (c # cs) =
     (if line_terminator c then None
      else (case after_scheme cs of
              Some rest \<Rightarrow> Some rest
            | None \<Rightarrow> if take 3 (c # cs) = ''://'' then Some (drop 2 cs) else None))"

definition referer_host :: "string \<Rightarrow> string" where
  "referer_host ref =
     takeWhile (\<lambda>c. c \<noteq> CHR ''/'') (case after_scheme ref of Some rest \<Rightarrow> rest | None \<Rightarrow> ref)"

text \<open>
  Looking up a membership test on a JavaScript array by name: \<open>includes\<close> is the method
  arrays have; no property \<open>contains\<close> exists on an array or on its prototypes, so that
  lookup yields undefined. Other array methods are not needed here.
\<close>

definition array_method :: "string \<Rightarrow> (string list \<Rightarrow> string \<Rightarrow> bool) option" where
  "array_method name = (if name = ''includes'' then Some (\<lambda>xs x. x \<in> set xs) else None)"

record peers_reply =
  iceTransportPolicy :: string
  reconnectTimer :: nat
  stun_urls :: string
  turn_urls :: string
  username :: "string option"
  credential :: "string option"

datatype response = Forbidden string | Peers peers_reply

text \<open>\<open>a || b\<close> on values that are strings or undefined, and string conversion.\<close>

definition or_else :: "string option \<Rightarrow> string option \<Rightarrow> string option" where
  "or_else a b = (if truthy a then a else b)"

definition to_string :: "string option \<Rightarrow> string" where
  "to_string v = (case v of None \<Rightarrow> ''undefined'' | Some x \<Rightarrow> x)"

text \<open>Decimal digits of a number, as string concatenation prints it.\<close>

fun dec :: "nat \<Rightarrow> string" where
  "dec n = (if n < 10 then [''0123456789'' ! n] else dec (n div 10) @ [''0123456789'' ! (n mod 10)])"

declare dec.simps [simp del]

definition peers_reply_of :: "environment \<Rightarrow> string option \<Rightarrow> string option \<Rightarrow> peers_reply" where
  "peers_reply_of env u c =
     \<lparr>iceTransportPolicy = ''all'', reconnectTimer = 3000,
      stun_urls = ''stun:'' @
        to_string (or_else (or_else (STUN env) (COTURN env)) (Some ''stun.linphone.org:3478'')),
      turn_urls = ''turn:'' @ to_string (or_else (TURN env) (COTURN env)),
      username = u, credential = c\<rparr>"

text \<open>
  The handler of \<open>/peers.json\<close>. The random name of \<open>nanoid\<close>, the clock in
  milliseconds and the HMAC of the \<open>crypto\<close> module are parameters. A call of a value
  that is not a function raises TypeError, after its argument has been evaluated.
\<close>

definition peers_json ::
  "environment \<Rightarrow> string option \<Rightarrow> string \<Rightarrow> nat \<Rightarrow> (string \<Rightarrow> string \<Rightarrow> string) \<Rightarrow>
     js_error + response" where
  "peers_json env referer temporaryUsername now hmac_sha1 =
     (case TURN_SECRET env of
        None \<Rightarrow> Inr (Peers (peers_reply_of env (TURN_USERNAME env) (TURN_PASSWORD env)))
      | Some secret \<Rightarrow>
          if \<not> truthy (Some secret)
          then Inr (Peers (peers_reply_of env (TURN_USERNAME env) (TURN_PASSWORD env)))
          else (case array_method ''contains'' of
                  None \<Rightarrow> Inl (TypeError ''turnWhitelist.contains is not a function'')
                | Some contains \<Rightarrow>
                    if \<not> contains (turnWhitelist env)
                           (referer_host (to_string (or_else referer (Some ''''))))
                    then Inr (Forbidden ''Referrer not allowed.'')
                    else Inr (Peers (peers_reply_of env
                                (Some (dec (now div 1000) @ '':'' @ temporaryUsername))
                                (Some (hmac_sha1 secret temporaryUsername))))))"

subsection \<open>Example runs\<close>

definition empty_name_trace :: "event list" where
  "empty_name_trace = [Connection ''a'', Ev ''a'' (Join ''''), Ev ''a'' (Join ''b'')]"

definition rejoin_trace :: "event list" where
  "rejoin_trace = [Connection ''a'', Ev ''a'' (Join ''r'')]"

definition pair_trace :: "event list" where
  "pair_trace = [Connection ''a'', Connection ''b'', Ev ''a'' (Join ''r''), Ev ''b'' (Join ''r'')]"

definition empty_name_teardown_trace :: "event list" where
  "empty_name_teardown_trace =
     [Connection ''a'', Ev ''a'' (Join ''''), Ev ''a'' (Teardown Disconnecting),
      Ev ''a'' (Teardown Disconnect)]"

definition full_room_trace :: "event list" where
  "full_room_trace =
     [Connection ''a'', Connection ''b'', Connection ''c'', Ev ''a'' (Join ''r''),
      Ev ''b'' (Join ''r''), Ev ''c'' (Join ''q'')]"

definition two_connections :: "event list" where
  "two_connections = [Connection ''a'', Connection ''b'']"


definition offer :: "string \<Rightarrow> string option \<Rightarrow> signal_data" where
  "offer f t = \<lparr>sd_from = Some f, sd_to = t, sd_rest = [(''sdp'', ''v=0'')]\<rparr>"

text \<open>Fifty connections join room \<open>r\<close> one after the other; then \<open>z\<close> connects.\<close>

definition guest :: "nat \<Rightarrow> sid" where
  "guest k = ''g'' @ dec k"

definition crowd :: "nat \<Rightarrow> event list" where
  "crowd n = concat (map (\<lambda>k. [Connection (guest k), Ev (guest k) (Join ''r'')]) [0..<n])"

definition crowded :: relay where
  "crowded = relay_after None (crowd 50 @ [Connection ''z''])"

definition secret_env :: environment where
  "secret_env = \<lparr>TURN_WHITELIST = Some ''peer.school,example.org'', TURN_USERNAME = None,
     TURN_PASSWORD = None, TURN_SECRET = Some ''s3cret'', STUN = None, TURN = None,
     COTURN = Some ''turn.example.org:3478''\<rparr>"

section \<open>Properties\<close>

subsection \<open>The room table\<close>

lemmas eval_simps = relay_after_def step_def on_join_def on_teardown_def on_signal_def
  on_connection_def socket_emit_def reserved_events_def trigger_of_def brokenSocket_def
  io_emit_def initial_def full_def truthy_def socketByID_def Object_prototype_def
  state_of_def sent_def
  allSocketsForRoom_def addSocketToRoom_def removeSocketFromRoom_def Let_def

lemma members_add:
  "allSocketsForRoom (addSocketToRoom i r tbl) r' =
     (if r' = r then allSocketsForRoom tbl r @ [i] else allSocketsForRoom tbl r')"
  by (simp add: allSocketsForRoom_def addSocketToRoom_def)

lemma members_remove:
  "allSocketsForRoom (removeSocketFromRoom i rn tbl) r' =
     (if rn = Some r' \<and> r' \<noteq> [] then removeAll i (allSocketsForRoom tbl r')
      else allSocketsForRoom tbl r')"
  by (auto simp: allSocketsForRoom_def removeSocketFromRoom_def Let_def split: option.splits)

lemma remove_idem:
  "removeSocketFromRoom i rn (removeSocketFromRoom i rn tbl) = removeSocketFromRoom i rn tbl"
  by (auto simp: removeSocketFromRoom_def Let_def split: option.splits)

subsection \<open>What the handlers compute\<close>

lemma on_teardown_eq:
  "on_teardown t i cur s =
     (s\<lparr>brokenSockets := insert i (brokenSockets s),
        rooms := removeSocketFromRoom i cur (rooms s)\<rparr>,
      map (\<lambda>k. (k, Remove i)) (connected s))"
  by (simp add: on_teardown_def brokenSocket_def io_emit_def)

lemma socket_emit_error: "socket_emit i cur ''error'' m s = on_teardown Error i cur s"
  by (simp add: socket_emit_def reserved_events_def trigger_of_def)

lemma socket_emit_joined: "socket_emit i cur ''joined'' m s = (s, [(i, m)])"
  by (simp add: socket_emit_def reserved_events_def)

lemma on_join_full:
  "full config_max (allSocketsForRoom (rooms s) r) \<Longrightarrow>
   on_join config_max i cur r s = on_teardown Error i cur s"
  by (simp add: on_join_def socket_emit_error)

lemma on_join_accepted:
  "\<not> full config_max (allSocketsForRoom (rooms s) r) \<Longrightarrow>
   on_join config_max i cur r s =
     (s\<lparr>rooms := addSocketToRoom i r (removeSocketFromRoom i cur (rooms s)),
        currentRoom := (currentRoom s)(i \<mapsto> Some r)\<rparr>,
      [(i, Joined r (allSocketsForRoom (rooms s) r))])"
  by (simp add: on_join_def socket_emit_joined)

subsection \<open>The invariant of the named rooms holds in every state of every run\<close>

lemma named_consistent_initial: "named_consistent initial"
  by (simp add: named_consistent_def initial_def allSocketsForRoom_def)

lemma named_consistent_teardown:
  assumes "named_consistent s"
  shows "named_consistent (fst (on_teardown t i cur s))"
  using assms
  by (auto simp: named_consistent_def on_teardown_eq members_remove distinct_removeAll
        split: if_splits)

lemma named_consistent_join:
  assumes "named_consistent s" and "currentRoom s i = Some cur"
  shows "named_consistent (fst (on_join config_max i cur r s))"
proof (cases "full config_max (allSocketsForRoom (rooms s) r)")
  case True
  with assms(1) show ?thesis by (simp add: on_join_full named_consistent_teardown)
next
  case False
  with assms show ?thesis
    by (auto simp: named_consistent_def on_join_accepted members_add members_remove
          distinct_removeAll split: if_splits)
qed

lemma on_signal_state: "on_signal i d s = Inr (s', out) \<Longrightarrow> s' = s"
  by (auto simp: on_signal_def split: option.splits if_splits property.splits)

lemma named_consistent_connection: "named_consistent s \<Longrightarrow> named_consistent (on_connection i s)"
  by (auto simp: named_consistent_def on_connection_def)

lemma named_consistent_step:
  assumes "named_consistent s" and "step config_max e s = Inr (s', out)"
  shows "named_consistent s'"
proof (cases e)
  case (Connection i)
  with assms show ?thesis by (auto simp: step_def named_consistent_connection)
next
  case (Closed i)
  with assms show ?thesis by (auto simp: step_def named_consistent_def)
next
  case (Ev i ce)
  show ?thesis
  proof (cases "currentRoom s i")
    case None
    with Ev assms show ?thesis by (auto simp: step_def)
  next
    case (Some cur)
    show ?thesis
    proof (cases ce)
      case (Join r)
      with Ev Some assms(2) have "s' = fst (on_join config_max i cur r s)"
        by (auto simp: step_def)
      with assms(1) Some show ?thesis by (simp add: named_consistent_join)
    next
      case (Signal d)
      with Ev Some assms(2) have "on_signal i d s = Inr (s', out)" by (simp add: step_def)
      then have "s' = s" by (rule on_signal_state)
      with assms(1) show ?thesis by simp
    next
      case (Teardown t)
      with Ev Some assms(2) have "s' = fst (on_teardown t i cur s)"
        by (auto simp: step_def)
      with assms(1) show ?thesis by (simp add: named_consistent_teardown)
    qed
  qed
qed

lemma named_consistent_run:
  "named_consistent s \<Longrightarrow> named_consistent (fst (run config_max evs s))"
proof (induction evs arbitrary: s)
  case Nil
  then show ?case by simp
next
  case (Cons e evs)
  show ?case
  proof (cases "step config_max e s")
    case (Inl err)
    with Cons.prems show ?thesis by simp
  next
    case (Inr res)
    obtain s' out where res: "res = (s', out)" by (cases res)
    from Cons.prems Inr res have "named_consistent s'" by (auto intro: named_consistent_step)
    then have "named_consistent (fst (run config_max evs s'))" by (rule Cons.IH)
    with Inr res show ?thesis by simp
  qed
qed

lemma named_consistent_after: "named_consistent (relay_after config_max evs)"
  unfolding relay_after_def by (rule named_consistent_run) (rule named_consistent_initial)

text \<open>
  Among the rooms with a non-empty name, membership is exclusive in every state of
  every run.
\<close>

lemma exclusive_among_named_rooms:
  assumes "r1 \<noteq> []" and "r2 \<noteq> []"
    and "i \<in> set (allSocketsForRoom (rooms (relay_after config_max evs)) r1)"
    and "i \<in> set (allSocketsForRoom (rooms (relay_after config_max evs)) r2)"
  shows "r1 = r2"
proof -
  have c: "named_consistent (relay_after config_max evs)" by (rule named_consistent_after)
  from c assms(1,3) have "currentRoom (relay_after config_max evs) i = Some (Some r1)"
    by (simp add: named_consistent_def)
  moreover from c assms(2,4) have "currentRoom (relay_after config_max evs) i = Some (Some r2)"
    by (simp add: named_consistent_def)
  ultimately show ?thesis by simp
qed

text \<open>
  A second teardown of a connection leaves the state of the first, in which the
  connection is marked broken and is in no room with a non-empty name, and repeats
  the broadcast.
\<close>

lemma teardown_twice_same_state:
  assumes "currentRoom (relay_after config_max evs) i = Some cur"
    and "step config_max (Ev i (Teardown t1)) (relay_after config_max evs) = Inr (s1, out1)"
  shows "step config_max (Ev i (Teardown t2)) s1 = Inr (s1, map (\<lambda>k. (k, Remove i)) (connected s1))"
    and "i \<in> brokenSockets s1"
    and "r \<noteq> [] \<Longrightarrow> i \<notin> set (allSocketsForRoom (rooms s1) r)"
proof -
  let ?s = "relay_after config_max evs"
  have c: "named_consistent ?s" by (rule named_consistent_after)
  have s1: "s1 = ?s\<lparr>brokenSockets := insert i (brokenSockets ?s),
                    rooms := removeSocketFromRoom i cur (rooms ?s)\<rparr>"
    using assms by (auto simp: step_def on_teardown_eq)
  show "step config_max (Ev i (Teardown t2)) s1 = Inr (s1, map (\<lambda>k. (k, Remove i)) (connected s1))"
    using assms(1) by (simp add: s1 step_def on_teardown_eq remove_idem)
  show "i \<in> brokenSockets s1" by (simp add: s1)
  show "i \<notin> set (allSocketsForRoom (rooms s1) r)" if "r \<noteq> []"
    using c assms(1) that by (auto simp: s1 members_remove named_consistent_def)
qed

text \<open>A signal addressed to the name of an inherited property raises TypeError.\<close>

lemma signal_to_inherited_name_raises:
  assumes "currentRoom s i = Some cur"
    and "sd_to d = Some t" and "t \<in> set Object_prototype" and "t \<notin> set (connected s)"
  shows "step config_max (Ev i (Signal d)) s = Inl (TypeError ''toSocket.emit is not a function'')"
  using assms
  by (auto simp: step_def on_signal_def truthy_def socketByID_def Object_prototype_def)

section \<open>The claims\<close>

subsection \<open>C1: room exclusivity\<close>

text \<open>
  Claim C1 at the input where the relay departs from it. A connection joins the room
  with the empty name and then room \<open>b\<close>. The removal that precedes the second join
  (line 92) does nothing for the empty name, so the connection is afterwards a member of
  both rooms: room exclusivity does not hold in this reachable state.
\<close>

theorem unnamed_room_breaks_exclusivity:
  "snd (run None empty_name_trace initial) = None \<and>
   allSocketsForRoom (rooms (relay_after None empty_name_trace)) '''' = [''a''] \<and>
   allSocketsForRoom (rooms (relay_after None empty_name_trace)) ''b'' = [''a''] \<and>
   currentRoom (relay_after None empty_name_trace) ''a'' = Some (Some ''b'')"
  by (simp add: empty_name_trace_def eval_simps)

text \<open>Hence I1 is false in that state.\<close>

lemma unnamed_room_not_exclusive: "\<not> room_exclusive (relay_after None empty_name_trace)"
proof
  have m1: "allSocketsForRoom (rooms (relay_after None empty_name_trace)) '''' = [''a'']"
    by (simp add: empty_name_trace_def eval_simps)
  have m2: "allSocketsForRoom (rooms (relay_after None empty_name_trace)) ''b'' = [''a'']"
    by (simp add: empty_name_trace_def eval_simps)
  assume "room_exclusive (relay_after None empty_name_trace)"
  then have "('''' :: string) = ''b''"
    unfolding room_exclusive_def using m1 m2 by (metis list.set_intros(1))
  then show False by simp
qed

subsection \<open>C2: capacity and its default\<close>

text \<open>
  Claim C2 at the input where the code departs from it. No capacity is configured, so
  \<open>CONFIG.max\<close> is 50; room \<open>r\<close> has 50 members; the join of a further connection is
  answered with \<open>joined\<close> and the room then has 51 members, because the handler
  compares with \<open>config.max\<close>.
\<close>

theorem default_capacity_not_applied:
  "CONFIG_max None = 50 \<and>
   snd (run None (crowd 50 @ [Connection ''z'']) initial) = None \<and>
   length (allSocketsForRoom (rooms crowded) ''r'') = 50 \<and>
   sent (step None (Ev ''z'' (Join ''r'')) crowded) =
     Some [(''z'', Joined ''r'' (map guest [0..<50]))] \<and>
   map_option (\<lambda>s. length (allSocketsForRoom (rooms s) ''r''))
     (state_of (step None (Ev ''z'' (Join ''r'')) crowded)) = Some 51"
  by code_simp

subsection \<open>C3: the snapshot of a join\<close>

text \<open>
  Claim C3, as amended. In every state of every run, an accepted join into a room with
  a non-empty name is answered with the room's membership as it is when the event is
  handled, in order and without duplicates; the membership immediately before the
  connection is added is that list without the connection's own identifier, so the two
  are equal exactly when the connection was not yet a member.
\<close>

theorem join_snapshot:
  assumes "currentRoom (relay_after config_max evs) i = Some cur"
    and "r \<noteq> []"
    and "\<not> full config_max (allSocketsForRoom (rooms (relay_after config_max evs)) r)"
  shows "sent (step config_max (Ev i (Join r)) (relay_after config_max evs)) =
           Some [(i, Joined r (allSocketsForRoom (rooms (relay_after config_max evs)) r))] \<and>
         distinct (allSocketsForRoom (rooms (relay_after config_max evs)) r) \<and>
         members_before_add i cur r (relay_after config_max evs) =
           removeAll i (allSocketsForRoom (rooms (relay_after config_max evs)) r)"
proof -
  let ?s = "relay_after config_max evs"
  have c: "named_consistent ?s" by (rule named_consistent_after)
  have reply: "sent (step config_max (Ev i (Join r)) ?s) =
      Some [(i, Joined r (allSocketsForRoom (rooms ?s) r))]"
    using assms(1,3) by (simp add: step_def on_join_accepted sent_def)
  have d: "distinct (allSocketsForRoom (rooms ?s) r)"
    using c assms(2) by (simp add: named_consistent_def)
  have "members_before_add i cur r ?s = removeAll i (allSocketsForRoom (rooms ?s) r)"
  proof (cases "i \<in> set (allSocketsForRoom (rooms ?s) r)")
    case True
    with c assms(1,2) have "cur = Some r" by (auto simp: named_consistent_def)
    with assms(2) show ?thesis by (simp add: members_before_add_def members_remove)
  next
    case False
    then show ?thesis by (simp add: members_before_add_def members_remove)
  qed
  with reply d show ?thesis by simp
qed

theorem join_snapshot_witness:
  "currentRoom (relay_after (Some 2) (rejoin_trace @ [Connection ''b''])) ''b'' = Some None \<and>
   \<not> full (Some 2)
       (allSocketsForRoom (rooms (relay_after (Some 2) (rejoin_trace @ [Connection ''b'']))) ''r'') \<and>
   sent (step (Some 2) (Ev ''b'' (Join ''r'')) (relay_after (Some 2) (rejoin_trace @ [Connection ''b'']))) =
     Some [(''b'', Joined ''r'' [''a''])] \<and>
   members_before_add ''b'' None ''r'' (relay_after (Some 2) (rejoin_trace @ [Connection ''b''])) =
     [''a'']"
  using join_snapshot
    [where evs = "rejoin_trace @ [Connection ''b'']" and i = "''b''" and r = "''r''"
       and config_max = "Some 2" and cur = None]
  by (simp add: rejoin_trace_def members_before_add_def eval_simps)

text \<open>
  The claim as stated fails when a connection joins the room it is in: the reply lists
  the connection itself, while the membership immediately before it is added is empty.
\<close>

theorem join_snapshot_counterexample:
  "currentRoom (relay_after None rejoin_trace) ''a'' = Some (Some ''r'') \<and>
   sent (step None (Ev ''a'' (Join ''r'')) (relay_after None rejoin_trace)) =
     Some [(''a'', Joined ''r'' [''a''])] \<and>
   members_before_add ''a'' (Some ''r'') ''r'' (relay_after None rejoin_trace) = []"
  by (simp add: rejoin_trace_def members_before_add_def eval_simps)

subsection \<open>C4: signals without a target\<close>




subsection \<open>C5: a rejected join\<close>

text \<open>
  Claim C5 at the input where the code departs from it. With a capacity of 2, room
  \<open>r\<close> holds \<open>a\<close> and \<open>b\<close>, and \<open>c\<close> is the only member of room \<open>q\<close>. The join of \<open>c\<close> into
  \<open>r\<close> is rejected; the \<open>error\<close> event of line 86 is emitted locally and runs the
  teardown listener: \<open>c\<close> is marked broken, \<open>remove\<close> is sent to every connected socket,
  \<open>c\<close> is taken out of room \<open>q\<close>, and no error message is sent to \<open>c\<close>.
\<close>

theorem rejected_join_tears_down_requester:
  "full (Some 2) (allSocketsForRoom (rooms (relay_after (Some 2) full_room_trace)) ''r'') \<and>
   ''c'' \<notin> brokenSockets (relay_after (Some 2) full_room_trace) \<and>
   allSocketsForRoom (rooms (relay_after (Some 2) full_room_trace)) ''q'' = [''c''] \<and>
   sent (step (Some 2) (Ev ''c'' (Join ''r'')) (relay_after (Some 2) full_room_trace)) =
     Some [(''a'', Remove ''c''), (''b'', Remove ''c''), (''c'', Remove ''c'')] \<and>
   map_option (\<lambda>s. (''c'' \<in> brokenSockets s, allSocketsForRoom (rooms s) ''q''))
     (state_of (step (Some 2) (Ev ''c'' (Join ''r'')) (relay_after (Some 2) full_room_trace))) =
     Some (True, [])"
  by (simp add: full_room_trace_def eval_simps)

subsection \<open>C6: teardown twice\<close>

text \<open>
  Claim C6 at the input where the relay departs from it. A connection joins the room
  with the empty name and is torn down twice. The removal of line 77 does nothing for
  the empty name: after both teardowns the connection is marked broken and is still a
  member of that room.
\<close>

theorem teardown_leaves_unnamed_room_member:
  "snd (run None empty_name_teardown_trace initial) = None \<and>
   ''a'' \<in> brokenSockets (relay_after None empty_name_teardown_trace) \<and>
   allSocketsForRoom (rooms (relay_after None empty_name_teardown_trace)) '''' = [''a'']"
  by (simp add: empty_name_teardown_trace_def eval_simps)

subsection \<open>C7: a signal with a foreign sender field\<close>

text \<open>
  Claim C7. A signal whose \<open>from\<close> field is not the sender's own identifier, and whose
  \<open>to\<close> field names a socket of the connected table, is forwarded to that socket with
  the payload as received, the \<open>from\<close> field included; no error is raised and the
  state does not change.
\<close>

theorem mismatched_from_forwarded:
  assumes "currentRoom s i = Some cur"
    and "sd_from d \<noteq> Some i"
    and "sd_to d = Some t" and "t \<noteq> []" and "t \<in> set (connected s)"
  shows "step config_max (Ev i (Signal d)) s = Inr (s, [(t, SignalMsg d)])"
  using assms by (simp add: step_def on_signal_def truthy_def socketByID_def)

theorem mismatched_from_forwarded_witness:
  "currentRoom (relay_after None pair_trace) ''b'' = Some (Some ''r'') \<and>
   sd_from (offer ''mallory'' (Some ''a'')) \<noteq> Some ''b'' \<and>
   ''a'' \<in> set (connected (relay_after None pair_trace)) \<and>
   step None (Ev ''b'' (Signal (offer ''mallory'' (Some ''a'')))) (relay_after None pair_trace) =
     Inr (relay_after None pair_trace, [(''a'', SignalMsg (offer ''mallory'' (Some ''a'')))])"
  using mismatched_from_forwarded
    [of "relay_after None pair_trace" "''b''" "Some ''r''" "offer ''mallory'' (Some ''a'')" "''a''" None]
  by (simp add: offer_def pair_trace_def eval_simps)

subsection \<open>C8: who receives the removal notice\<close>

text \<open>
  Claim C8, as amended. A teardown marks the connection broken and sends one \<open>remove\<close>
  message carrying its identifier to every socket that is in the connected table at
  that moment, the connection itself included when it is still there.
\<close>

theorem remove_broadcast_recipients:
  assumes "currentRoom s i = Some cur"
  shows "sent (step config_max (Ev i (Teardown t)) s) = Some (map (\<lambda>k. (k, Remove i)) (connected s)) \<and>
         map_option (\<lambda>s'. i \<in> brokenSockets s') (state_of (step config_max (Ev i (Teardown t)) s)) =
           Some True"
  using assms by (simp add: step_def on_teardown_eq sent_def state_of_def)

theorem remove_broadcast_recipients_witness:
  "currentRoom (relay_after None (two_connections @ [Closed ''a''])) ''a'' = Some None \<and>
   sent (step None (Ev ''a'' (Teardown Disconnect)) (relay_after None (two_connections @ [Closed ''a'']))) =
     Some [(''b'', Remove ''a'')]"
  using remove_broadcast_recipients
    [of "relay_after None (two_connections @ [Closed ''a''])" "''a''" None None Disconnect]
  by (simp add: two_connections_def eval_simps)

text \<open>
  The claim as stated fails for a trigger that finds the connection still in the
  connected table, such as \<open>error\<close>: the broken connection is among the recipients.
\<close>

theorem remove_broadcast_counterexample:
  "sent (step None (Ev ''a'' (Teardown Error)) (relay_after None two_connections)) =
     Some [(''a'', Remove ''a''), (''b'', Remove ''a'')] \<and>
   map_option (map fst)
       (sent (step None (Ev ''a'' (Teardown Error)) (relay_after None two_connections))) \<noteq>
     Some (filter (\<lambda>k. k \<noteq> ''a'') (connected (relay_after None two_connections)))"
  by (simp add: two_connections_def eval_simps)

subsection \<open>C9: the whitelist check of the TURN endpoint\<close>

text \<open>
  Claim C9. Whenever a non-empty shared secret is configured, the request ends in the
  TypeError of calling \<open>turnWhitelist.contains\<close>, which is not a method of arrays:
  whatever the whitelist and the referrer, it is neither refused with status 403 nor
  answered with credentials.
\<close>

theorem whitelist_check_always_fails:
  assumes "TURN_SECRET env = Some secret" and "secret \<noteq> []"
  shows "peers_json env referer temporaryUsername now hmac_sha1 =
           Inl (TypeError ''turnWhitelist.contains is not a function'') \<and>
         array_method ''contains'' = None"
  using assms by (simp add: peers_json_def truthy_def array_method_def)

theorem whitelist_check_always_fails_witness:
  "TURN_SECRET secret_env = Some ''s3cret'' \<and>
   referer_host ''https://peer.school/room/x'' \<in> set (turnWhitelist secret_env) \<and>
   peers_json secret_env (Some ''https://peer.school/room/x'') ''tmp'' 1000 (\<lambda>k m. k @ m) =
     Inl (TypeError ''turnWhitelist.contains is not a function'')"
  using whitelist_check_always_fails
    [of secret_env "''s3cret''" "Some ''https://peer.school/room/x''" "''tmp''" 1000 "\<lambda>k m. k @ m"]
  by (simp add: secret_env_def referer_host_def turnWhitelist_def truthy_def line_terminator_def)

subsection \<open>C10: joining the room one is in\<close>

text \<open>
  Claim C10. When a connection that is a member of a room which is not full joins that
  room again, the peers list of the \<open>joined\<close> reply is the membership read at the
  start of the handler and contains the connection's own identifier; only afterwards
  is the connection removed from its remembered room and appended to the room.
\<close>

theorem self_rejoin_snapshot:
  assumes "currentRoom s i = Some cur"
    and "i \<in> set (allSocketsForRoom (rooms s) r)"
    and "\<not> full config_max (allSocketsForRoom (rooms s) r)"
  shows "sent (step config_max (Ev i (Join r)) s) =
           Some [(i, Joined r (allSocketsForRoom (rooms s) r))] \<and>
         i \<in> set (allSocketsForRoom (rooms s) r) \<and>
         map_option rooms (state_of (step config_max (Ev i (Join r)) s)) =
           Some (addSocketToRoom i r (removeSocketFromRoom i cur (rooms s)))"
  using assms by (simp add: step_def on_join_accepted sent_def state_of_def)

theorem self_rejoin_snapshot_witness:
  "currentRoom (relay_after (Some 3) pair_trace) ''a'' = Some (Some ''r'') \<and>
   ''a'' \<in> set (allSocketsForRoom (rooms (relay_after (Some 3) pair_trace)) ''r'') \<and>
   \<not> full (Some 3) (allSocketsForRoom (rooms (relay_after (Some 3) pair_trace)) ''r'') \<and>
   sent (step (Some 3) (Ev ''a'' (Join ''r'')) (relay_after (Some 3) pair_trace)) =
     Some [(''a'', Joined ''r'' [''a'', ''b''])]"
  using self_rejoin_snapshot [of "relay_after (Some 3) pair_trace" "''a''" "Some ''r''" "''r''" "Some 3"]
  by (simp add: pair_trace_def eval_simps)

end
